theory Spec2Isabelle
  imports Complex_Main "HOL-Library.List_Lexorder" "HOL-Library.Char_ord"
begin

section \<open>How a Go call ends\<close>

text \<open>
  A call of the telemetry service either returns, panics (the panic unwinds to the
  caller; inside an HTTP handler the server recovers it and drops the request), or ends
  the whole process through \<^verbatim>\<open>os.Exit\<close>. Whatever was written to shared state before a
  panic stays written, so every operation returns the state it leaves behind together
  with the way it ended.

  Each panic names the statement that raises it: \<open>NilPointerDereference\<close> a field read
  through a \<^verbatim>\<open>nil\<close> pointer; \<open>RegistrationFailed\<close> the constructor of a vector
  (\<^verbatim>\<open>promauto.With(reg).NewCounterVec\<close> and its siblings), which in a recorder runs before
  the label values are assembled; \<open>InconsistentCardinality\<close> the call of
  \<^verbatim>\<open>WithLabelValues\<close>, after they are assembled; \<open>CounterCannotDecrease\<close> the call of
  \<^verbatim>\<open>Add\<close> on the child; \<open>LoggerPanic\<close> the logger's \<^verbatim>\<open>Panic\<close>.
\<close>

datatype panic =
    NilPointerDereference
  | RegistrationFailed
  | InconsistentCardinality
  | CounterCannotDecrease
  | LoggerPanic string

datatype 'a result = Returned 'a | Panicked panic | Exited int

section \<open>Go maps of labels\<close>

text \<open>
  \<^verbatim>\<open>map[string]string\<close>. Indexing a missing key gives the zero value, the empty string.
  A \<^verbatim>\<open>range\<close> loop visits every key once in an order the language leaves open, and two
  loops over the same map need not agree; the order of each loop is therefore an
  argument of the function that loops (\<open>rangeOrder ks m\<close> says that \<open>ks\<close> is one
  possible order for \<open>m\<close>).
\<close>

type_synonym labels = "string \<rightharpoonup> string"

definition mapIndex :: "labels \<Rightarrow> string \<Rightarrow> string" where
  "mapIndex m k = (case m k of None \<Rightarrow> [] | Some v \<Rightarrow> v)"

definition mapDelete :: "labels \<Rightarrow> string \<Rightarrow> labels" where
  "mapDelete m k = m(k := None)"

definition rangeOrder :: "string list \<Rightarrow> labels \<Rightarrow> bool" where
  "rangeOrder ks m \<longleftrightarrow> distinct ks \<and> set ks = dom m"

section \<open>The metrics library, as far as the service uses it\<close>

text \<open>
  The service keeps its aggregates in vectors of the Prometheus client library. The
  library is not part of the repository; the definitions of this section follow its
  documented behaviour:
  \<^item> a vector has a fixed list of label names and one child per tuple of label values;
  \<^item> registering a collector fails when its descriptor is invalid (a label name occurs
    twice, or a name breaks the naming rules) or when the fully qualified name is
    registered already; the \<^verbatim>\<open>promauto\<close> constructors panic when registration fails;
  \<^item> \<^verbatim>\<open>WithLabelValues\<close> panics unless it gets exactly as many values as the vector has
    label names, and creates the child (at zero) when the tuple is new;
  \<^item> \<^verbatim>\<open>Counter.Add\<close> panics on a negative argument.

  Two things the library does are parameters, kept in a record \<open>library\<close> (\<open>lib\<close>
  below): its naming rules (\<open>validDesc\<close>), which differ between versions, and what
  \<^verbatim>\<open>Counter.Add\<close> makes of the value a child holds and a non-negative argument
  (\<open>counterAdd\<close>): the library accumulates in \<^verbatim>\<open>float64\<close> (whole numbers in an integer),
  so that the result is their sum only up to rounding. The general theorems below hold
  for each choice of both; where the code is run on a concrete input the choice is
  \<open>plainLibrary\<close>. Label values are taken to be valid UTF-8, as every string decoded
  from JSON is. A sample value is a \<^verbatim>\<open>float64\<close> in the source and the \<open>real\<close> it denotes
  here (JSON carries neither NaN nor infinities).
\<close>

record 'a MetricVec =
  labelNames :: "string list"
  children :: "string list \<rightharpoonup> 'a"

type_synonym CounterVec = "real MetricVec"
type_synonym GaugeVec = "real MetricVec"
type_synonym HistogramVec = "real list MetricVec"

type_synonym validation = "string \<Rightarrow> string list \<Rightarrow> bool"

record library =
  validDesc :: validation
  counterAdd :: "real \<Rightarrow> real \<Rightarrow> real"

definition NewVec :: "string list \<Rightarrow> 'a MetricVec" where
  "NewVec lns = \<lparr>labelNames = lns, children = Map.empty\<rparr>"

definition MustRegister ::
  "library \<Rightarrow> string set \<Rightarrow> string \<Rightarrow> string list \<Rightarrow> string set option" where
  "MustRegister lib r fqName lns =
     (if validDesc lib fqName lns \<and> distinct lns \<and> fqName \<notin> r
      then Some (insert fqName r) else None)"

definition WithLabelValues :: "'a \<Rightarrow> 'a MetricVec \<Rightarrow> string list \<Rightarrow> 'a MetricVec option" where
  "WithLabelValues zero vec lvs =
     (if length lvs \<noteq> length (labelNames vec) then None
      else Some (case children vec lvs of
                   Some c \<Rightarrow> vec
                 | None \<Rightarrow> vec\<lparr>children := (children vec)(lvs \<mapsto> zero)\<rparr>))"

text \<open>The value of a child, zero while the child does not exist.\<close>

definition childValue :: "('k \<rightharpoonup> real) \<Rightarrow> 'k \<Rightarrow> real" where
  "childValue cs lvs = (case cs lvs of None \<Rightarrow> 0 | Some v \<Rightarrow> v)"

definition plainNameChar :: "char \<Rightarrow> bool" where
  "plainNameChar c \<longleftrightarrow>
     c \<in> set ''abcdefghijklmnopqrstuvwxyzABCDEFGHIJKLMNOPQRSTUVWXYZ_0123456789''"

text \<open>
  One concrete choice of naming rules, used where a theorem runs the code on a concrete
  input: a name is accepted when it is not empty, consists of letters, digits and
  underscores, and starts neither with a digit nor with two underscores. Every version
  of the library accepts the names this choice accepts.
\<close>

definition plainName :: "string \<Rightarrow> bool" where
  "plainName s \<longleftrightarrow>
     (case s of
        [] \<Rightarrow> False
      | c # cs \<Rightarrow> c \<notin> set ''0123456789'' \<and> take 2 s \<noteq> ''__'' \<and> list_all plainNameChar s)"

definition plainValidation :: validation where
  "plainValidation fqName lns \<longleftrightarrow> plainName fqName \<and> list_all plainName lns"

text \<open>
  The library with these naming rules and exact addition (as \<^verbatim>\<open>float64\<close> addition is on
  whole numbers of moderate size).
\<close>

definition plainLibrary :: library where
  "plainLibrary = \<lparr>validDesc = plainValidation, counterAdd = (+)\<rparr>"

section \<open>The registry of the service (package metrics)\<close>

text \<open>
  \<^verbatim>\<open>Metrics\<close> with the package-level registry \<^verbatim>\<open>reg\<close> (the set of fully qualified names
  registered so far). The built-in vectors are declared with two or three label names
  and are always addressed with as many values, so their children are keyed by pairs
  and triples. A histogram child is the list of the values observed so far.
\<close>

record Metrics =
  reg :: "string set"
  HTTPRequestsTotal :: "(string \<times> string \<times> string) \<rightharpoonup> real"
  HTTPRequestDuration :: "(string \<times> string) \<rightharpoonup> real list"
  HTTPRequestsInFlight :: real
  LogsReceived :: "(string \<times> string) \<rightharpoonup> real"
  LogsProcessed :: "(string \<times> string) \<rightharpoonup> real"
  LogsErrors :: "(string \<times> string) \<rightharpoonup> real"
  LogBatchSize :: "real list"
  CustomCounters :: "string \<rightharpoonup> CounterVec"
  CustomGauges :: "string \<rightharpoonup> GaugeVec"
  CustomHistograms :: "string \<rightharpoonup> HistogramVec"

definition InitMetrics :: Metrics where
  "InitMetrics =
     \<lparr>reg = {''telemetry_http_requests_total'', ''telemetry_http_request_duration_seconds'',
             ''telemetry_http_requests_in_flight'', ''telemetry_logs_received_total'',
             ''telemetry_logs_processed_total'', ''telemetry_logs_errors_total'',
             ''telemetry_log_batch_size''},
      HTTPRequestsTotal = Map.empty,
      HTTPRequestDuration = Map.empty,
      HTTPRequestsInFlight = 0,
      LogsReceived = Map.empty,
      LogsProcessed = Map.empty,
      LogsErrors = Map.empty,
      LogBatchSize = [],
      CustomCounters = Map.empty,
      CustomGauges = Map.empty,
      CustomHistograms = Map.empty\<rparr>"

subsection \<open>The three recorders\<close>

text \<open>
  Each recorder builds the label names (only when the family is new) and the label
  values (on every call) with the same two loops; \<open>ks1\<close> is the order in which the first
  loop visits the keys of \<open>labels\<close>, \<open>ks2\<close> the order in which the second loop visits
  what is left after \<^verbatim>\<open>delete(labels, "service_name")\<close>.
\<close>

definition buildLabelNames :: "string list \<Rightarrow> string list" where
  "buildLabelNames ks1 = ''service_name'' # ks1"

definition buildLabelValues :: "labels \<Rightarrow> string list \<Rightarrow> string list" where
  "buildLabelValues labels ks2 =
     mapIndex labels ''service_name'' # map (mapIndex (mapDelete labels ''service_name'')) ks2"

definition RecordCustomCounter ::
  "library \<Rightarrow> Metrics \<Rightarrow> string \<Rightarrow> labels \<Rightarrow> real \<Rightarrow> string list \<Rightarrow> string list
     \<Rightarrow> Metrics \<times> unit result" where
  "RecordCustomCounter lib m name labels value ks1 ks2 =
     (case (case CustomCounters m name of
              Some counter \<Rightarrow> Some (m, counter)
            | None \<Rightarrow>
                (case MustRegister lib (reg m) (''custom_'' @ name) (buildLabelNames ks1) of
                   None \<Rightarrow> None
                 | Some r \<Rightarrow>
                     Some (m\<lparr>reg := r,
                              CustomCounters :=
                                (CustomCounters m)(name \<mapsto> NewVec (buildLabelNames ks1))\<rparr>,
                           NewVec (buildLabelNames ks1))))
      of
        None \<Rightarrow> (m, Panicked RegistrationFailed)
      | Some (m1, counter) \<Rightarrow>
          (let labelValues = buildLabelValues labels ks2 in
           case WithLabelValues 0 counter labelValues of
             None \<Rightarrow> (m1, Panicked InconsistentCardinality)
           | Some counter1 \<Rightarrow>
               if value < 0
               then (m1\<lparr>CustomCounters := (CustomCounters m1)(name \<mapsto> counter1)\<rparr>,
                     Panicked CounterCannotDecrease)
               else (m1\<lparr>CustomCounters := (CustomCounters m1)(name \<mapsto>
                          counter1\<lparr>children := (children counter1)(labelValues \<mapsto>
                            counterAdd lib (childValue (children counter1) labelValues) value)\<rparr>)\<rparr>,
                     Returned ())))"

definition RecordCustomGauge ::
  "library \<Rightarrow> Metrics \<Rightarrow> string \<Rightarrow> labels \<Rightarrow> real \<Rightarrow> string list \<Rightarrow> string list
     \<Rightarrow> Metrics \<times> unit result" where
  "RecordCustomGauge lib m name labels value ks1 ks2 =
     (case (case CustomGauges m name of
              Some gauge \<Rightarrow> Some (m, gauge)
            | None \<Rightarrow>
                (case MustRegister lib (reg m) (''custom_'' @ name) (buildLabelNames ks1) of
                   None \<Rightarrow> None
                 | Some r \<Rightarrow>
                     Some (m\<lparr>reg := r,
                              CustomGauges :=
                                (CustomGauges m)(name \<mapsto> NewVec (buildLabelNames ks1))\<rparr>,
                           NewVec (buildLabelNames ks1))))
      of
        None \<Rightarrow> (m, Panicked RegistrationFailed)
      | Some (m1, gauge) \<Rightarrow>
          (let labelValues = buildLabelValues labels ks2 in
           case WithLabelValues 0 gauge labelValues of
             None \<Rightarrow> (m1, Panicked InconsistentCardinality)
           | Some gauge1 \<Rightarrow>
               (m1\<lparr>CustomGauges := (CustomGauges m1)(name \<mapsto>
                     gauge1\<lparr>children := (children gauge1)(labelValues \<mapsto> value)\<rparr>)\<rparr>,
                Returned ())))"

definition RecordCustomHistogram ::
  "library \<Rightarrow> Metrics \<Rightarrow> string \<Rightarrow> labels \<Rightarrow> real \<Rightarrow> string list \<Rightarrow> string list
     \<Rightarrow> Metrics \<times> unit result" where
  "RecordCustomHistogram lib m name labels value ks1 ks2 =
     (case (case CustomHistograms m name of
              Some histogram \<Rightarrow> Some (m, histogram)
            | None \<Rightarrow>
                (case MustRegister lib (reg m) (''custom_'' @ name) (buildLabelNames ks1) of
                   None \<Rightarrow> None
                 | Some r \<Rightarrow>
                     Some (m\<lparr>reg := r,
                              CustomHistograms :=
                                (CustomHistograms m)(name \<mapsto> NewVec (buildLabelNames ks1))\<rparr>,
                           NewVec (buildLabelNames ks1))))
      of
        None \<Rightarrow> (m, Panicked RegistrationFailed)
      | Some (m1, histogram) \<Rightarrow>
          (let labelValues = buildLabelValues labels ks2 in
           case WithLabelValues [] histogram labelValues of
             None \<Rightarrow> (m1, Panicked InconsistentCardinality)
           | Some histogram1 \<Rightarrow>
               (m1\<lparr>CustomHistograms := (CustomHistograms m1)(name \<mapsto>
                     histogram1\<lparr>children := (children histogram1)(labelValues \<mapsto>
                       (case children histogram1 labelValues of None \<Rightarrow> [] | Some vs \<Rightarrow> vs)
                         @ [value])\<rparr>)\<rparr>,
                Returned ())))"

subsection \<open>RecordMetric\<close>

text \<open>
  \<^verbatim>\<open>MetricEntry\<close>; a \<^verbatim>\<open>nil\<close> map of labels is \<open>None\<close>. (The field \<^verbatim>\<open>ServiceName\<close> is
  \<open>MetricServiceName\<close> here, since the log entry has a field of the same name.)
\<close>

record MetricEntry =
  MetricServiceName :: string
  MetricName :: string
  MetricType :: string
  Value :: real
  Labels :: "labels option"

definition foldServiceName :: "MetricEntry \<Rightarrow> labels" where
  "foldServiceName entry =
     (case Labels entry of None \<Rightarrow> Map.empty | Some ls \<Rightarrow> ls)
       (''service_name'' \<mapsto> MetricServiceName entry)"

definition RecordMetric ::
  "library \<Rightarrow> Metrics \<Rightarrow> MetricEntry \<Rightarrow> string list \<Rightarrow> string list \<Rightarrow> Metrics \<times> unit result"
  where
  "RecordMetric lib m entry ks1 ks2 =
     (let labels = foldServiceName entry in
      if MetricType entry = ''counter''
        then RecordCustomCounter lib m (MetricName entry) labels (Value entry) ks1 ks2
      else if MetricType entry = ''gauge''
        then RecordCustomGauge lib m (MetricName entry) labels (Value entry) ks1 ks2
      else if MetricType entry = ''histogram''
        then RecordCustomHistogram lib m (MetricName entry) labels (Value entry) ks1 ks2
      else (m, Returned ()))"

section \<open>The logger (package logger)\<close>

text \<open>
  \<^verbatim>\<open>time.Time\<close> as the instant it denotes: seconds since January 1 of year 1, 00:00:00
  UTC, and nanoseconds within the second. The zero value of the type is that instant.
\<close>

record Time =
  seconds :: int
  nanoseconds :: int

definition zeroTime :: Time where
  "zeroTime = \<lparr>seconds = 0, nanoseconds = 0\<rparr>"

definition IsZero :: "Time \<Rightarrow> bool" where
  "IsZero t \<longleftrightarrow> seconds t = 0 \<and> nanoseconds t = 0"

text \<open>
  \<^verbatim>\<open>LogEntry\<close>. The custom fields are kept in the order in which the loop of
  \<^verbatim>\<open>LogFromService\<close> visits them, each value as its JSON text.
\<close>

record LogEntry =
  ServiceName :: string
  Level :: string
  Message :: string
  Timestamp :: Time
  Fields :: "(string \<times> string) list"
  TraceID :: string
  SpanID :: string

text \<open>
  The bytes of a request body are represented by what \<^verbatim>\<open>encoding/json\<close> makes of them:
  an error message, or the decoded document. A decoded log object lists the members
  the struct tags of \<^verbatim>\<open>LogEntry\<close> name, each present or absent (a \<^verbatim>\<open>null\<close> member counts
  as absent); decoding leaves the Go zero value in the field of an absent member.
\<close>

datatype 'a jsonBytes = Malformed string | WellFormed 'a

record LogObject =
  m_service_name :: "string option"
  m_level :: "string option"
  m_message :: "string option"
  m_timestamp :: "Time option"
  m_fields :: "(string \<times> string) list option"
  m_trace_id :: "string option"
  m_span_id :: "string option"

definition orZero :: "'a \<Rightarrow> 'a option \<Rightarrow> 'a" where
  "orZero z x = (case x of None \<Rightarrow> z | Some v \<Rightarrow> v)"

definition Unmarshal :: "LogObject \<Rightarrow> LogEntry" where
  "Unmarshal obj =
     \<lparr>ServiceName = orZero [] (m_service_name obj),
      Level = orZero [] (m_level obj),
      Message = orZero [] (m_message obj),
      Timestamp = orZero zeroTime (m_timestamp obj),
      Fields = orZero [] (m_fields obj),
      TraceID = orZero [] (m_trace_id obj),
      SpanID = orZero [] (m_span_id obj)\<rparr>"

text \<open>
  \<^verbatim>\<open>ParseLogEntry\<close> returns a pointer and an error; the pointer is \<open>None\<close> when it is
  \<^verbatim>\<open>nil\<close>. \<open>now\<close> is what \<^verbatim>\<open>time.Now()\<close> returns in this call.
\<close>

definition ParseLogEntry :: "Time \<Rightarrow> LogObject jsonBytes \<Rightarrow> LogEntry option \<times> string option" where
  "ParseLogEntry now data =
     (case data of
        Malformed err \<Rightarrow> (None, Some (''failed to parse log entry: '' @ err))
      | WellFormed obj \<Rightarrow>
          (let entry = Unmarshal obj in
           (Some (if IsZero (Timestamp entry) then entry\<lparr>Timestamp := now\<rparr> else entry), None)))"

subsection \<open>The zap logger\<close>

text \<open>
  The sink is the list of entries written so far. As the logging library documents,
  an entry below the configured level is dropped, \<^verbatim>\<open>Fatal\<close> writes its entry and then
  calls \<^verbatim>\<open>os.Exit(1)\<close>, and \<^verbatim>\<open>Panic\<close> writes its entry and then panics. \<^verbatim>\<open>main\<close> builds the
  logger before the server starts, so \<^verbatim>\<open>GetLogger\<close> finds it.
\<close>

datatype zapLevel = DebugLevel | InfoLevel | WarnLevel | ErrorLevel | PanicLevel | FatalLevel

fun levelRank :: "zapLevel \<Rightarrow> int" where
  "levelRank DebugLevel = - 1"
| "levelRank InfoLevel = 0"
| "levelRank WarnLevel = 1"
| "levelRank ErrorLevel = 2"
| "levelRank PanicLevel = 4"
| "levelRank FatalLevel = 5"

record zapEntry =
  entryLevel :: zapLevel
  entryMessage :: string
  entryFields :: "(string \<times> string) list"

record Logger =
  minLevel :: zapLevel
  written :: "zapEntry list"

definition getLogLevel :: "string \<Rightarrow> zapLevel" where
  "getLogLevel lv =
     (if lv = ''debug'' then DebugLevel
      else if lv = ''info'' then InfoLevel
      else if lv = ''warn'' \<or> lv = ''warning'' then WarnLevel
      else if lv = ''error'' then ErrorLevel
      else if lv = ''fatal'' then FatalLevel
      else if lv = ''panic'' then PanicLevel
      else InfoLevel)"

definition InitLogger :: "string \<Rightarrow> Logger" where
  "InitLogger lv = \<lparr>minLevel = getLogLevel lv, written = []\<rparr>"

definition zapWrite :: "Logger \<Rightarrow> zapLevel \<Rightarrow> string \<Rightarrow> (string \<times> string) list \<Rightarrow> Logger" where
  "zapWrite lg lv msg fs =
     (if levelRank (minLevel lg) \<le> levelRank lv
      then lg\<lparr>written := written lg @ [\<lparr>entryLevel = lv, entryMessage = msg, entryFields = fs\<rparr>]\<rparr>
      else lg)"

text \<open>\<^verbatim>\<open>LogFromService\<close> returns an \<^verbatim>\<open>error\<close>: \<open>None\<close> is \<^verbatim>\<open>nil\<close>.\<close>

definition LogFromService :: "Logger \<Rightarrow> LogEntry \<Rightarrow> Logger \<times> string option result" where
  "LogFromService logger entry =
     (let fs = [(''service_name'', ServiceName entry)]
               @ (if TraceID entry \<noteq> [] then [(''trace_id'', TraceID entry)] else [])
               @ (if SpanID entry \<noteq> [] then [(''span_id'', SpanID entry)] else [])
               @ Fields entry
      in
      if Level entry = ''debug'' then (zapWrite logger DebugLevel (Message entry) fs, Returned None)
      else if Level entry = ''info'' then (zapWrite logger InfoLevel (Message entry) fs, Returned None)
      else if Level entry = ''warn'' \<or> Level entry = ''warning''
        then (zapWrite logger WarnLevel (Message entry) fs, Returned None)
      else if Level entry = ''error'' then (zapWrite logger ErrorLevel (Message entry) fs, Returned None)
      else if Level entry = ''fatal'' then (zapWrite logger FatalLevel (Message entry) fs, Exited 1)
      else if Level entry = ''panic''
        then (zapWrite logger PanicLevel (Message entry) fs, Panicked (LoggerPanic (Message entry)))
      else (zapWrite logger InfoLevel (Message entry) fs, Returned None))"

fun LogBatch :: "Logger \<Rightarrow> LogEntry list \<Rightarrow> Logger \<times> string option result" where
  "LogBatch logger [] = (logger, Returned None)"
| "LogBatch logger (entry # entries) =
     (case LogFromService logger entry of
        (logger1, Returned None) \<Rightarrow> LogBatch logger1 entries
      | (logger1, Returned (Some err)) \<Rightarrow> (logger1, Returned (Some (''failed to log entry: '' @ err)))
      | (logger1, Panicked p) \<Rightarrow> (logger1, Panicked p)
      | (logger1, Exited c) \<Rightarrow> (logger1, Exited c))"

section \<open>The HTTP handlers (package handler)\<close>

text \<open>
  A request is its method and its body; reading the body may fail (\<open>Inl\<close> with the
  error), otherwise the bytes are there. A response is the status code and the members
  of the JSON envelope. The state of the server is the registry and the logger.
\<close>

record 'a Request =
  Method :: string
  Body :: "string + 'a jsonBytes"

datatype jsonValue = JString string | JNumber int

record Response =
  statusCode :: nat
  payload :: "(string \<times> jsonValue) list"

record Server =
  metrics :: Metrics
  zapLogger :: Logger

type_synonym handled = "Server \<times> Response option \<times> unit result"

definition InitServer :: Server where
  "InitServer = \<lparr>metrics = InitMetrics, zapLogger = InitLogger ''info''\<rparr>"

text \<open>\<^verbatim>\<open>json.NewDecoder(r.Body).Decode\<close>: a read error and malformed bytes both come back as the error.\<close>

definition Decode :: "string + 'a jsonBytes \<Rightarrow> string + 'a" where
  "Decode b = (case b of Inl e \<Rightarrow> Inl e | Inr (Malformed e) \<Rightarrow> Inl e | Inr (WellFormed x) \<Rightarrow> Inr x)"

definition StatusText :: "nat \<Rightarrow> string" where
  "StatusText code =
     (if code = 200 then ''OK''
      else if code = 400 then ''Bad Request''
      else if code = 405 then ''Method Not Allowed''
      else if code = 500 then ''Internal Server Error''
      else [])"

definition respondError :: "string \<Rightarrow> nat \<Rightarrow> Response" where
  "respondError msg code =
     \<lparr>statusCode = code, payload = [(''status'', JString ''error''), (''error'', JString msg)]\<rparr>"

definition respondSuccess :: "(string \<times> jsonValue) list \<Rightarrow> Response" where
  "respondSuccess d = \<lparr>statusCode = 200, payload = d\<rparr>"

text \<open>\<^verbatim>\<open>WithLabelValues(...).Inc()\<close> and \<^verbatim>\<open>WithLabelValues(...).Observe(v)\<close> on a built-in vector.\<close>

definition Inc :: "('k \<rightharpoonup> real) \<Rightarrow> 'k \<Rightarrow> ('k \<rightharpoonup> real)" where
  "Inc cs k = cs(k \<mapsto> childValue cs k + 1)"

definition Observe :: "('k \<rightharpoonup> real list) \<Rightarrow> 'k \<Rightarrow> real \<Rightarrow> ('k \<rightharpoonup> real list)" where
  "Observe cs k v = cs(k \<mapsto> (case cs k of None \<Rightarrow> [] | Some vs \<Rightarrow> vs) @ [v])"

text \<open>\<open>dur\<close> is the time the handler measures between its start and this call.\<close>

definition recordHTTPMetrics :: "Server \<Rightarrow> string \<Rightarrow> string \<Rightarrow> nat \<Rightarrow> real \<Rightarrow> Server" where
  "recordHTTPMetrics s method endpoint status dur =
     s\<lparr>metrics := (metrics s)
        \<lparr>HTTPRequestDuration := Observe (HTTPRequestDuration (metrics s)) (method, endpoint) dur,
         HTTPRequestsTotal :=
           Inc (HTTPRequestsTotal (metrics s)) (method, endpoint, StatusText status)\<rparr>\<rparr>"

definition IncLogsReceived :: "Server \<Rightarrow> string \<times> string \<Rightarrow> Server" where
  "IncLogsReceived s k = s\<lparr>metrics := (metrics s)\<lparr>LogsReceived := Inc (LogsReceived (metrics s)) k\<rparr>\<rparr>"

definition IncLogsProcessed :: "Server \<Rightarrow> string \<times> string \<Rightarrow> Server" where
  "IncLogsProcessed s k = s\<lparr>metrics := (metrics s)\<lparr>LogsProcessed := Inc (LogsProcessed (metrics s)) k\<rparr>\<rparr>"

definition IncLogsErrors :: "Server \<Rightarrow> string \<times> string \<Rightarrow> Server" where
  "IncLogsErrors s k = s\<lparr>metrics := (metrics s)\<lparr>LogsErrors := Inc (LogsErrors (metrics s)) k\<rparr>\<rparr>"

text \<open>
  Every handler starts with \<^verbatim>\<open>HTTPRequestsInFlight.Inc()\<close> and defers the matching
  \<^verbatim>\<open>Dec()\<close>, which runs when the handler returns or panics, not when the process exits.
\<close>

definition addInFlight :: "real \<Rightarrow> Server \<Rightarrow> Server" where
  "addInFlight d s =
     s\<lparr>metrics := (metrics s)\<lparr>HTTPRequestsInFlight := HTTPRequestsInFlight (metrics s) + d\<rparr>\<rparr>"

definition inFlight :: "(Server \<Rightarrow> handled) \<Rightarrow> Server \<Rightarrow> handled" where
  "inFlight handler s =
     (case handler (addInFlight 1 s) of
        (s1, resp, res) \<Rightarrow>
          (case res of
             Exited c \<Rightarrow> (s1, resp, res)
           | Returned u \<Rightarrow> (addInFlight (- 1) s1, resp, res)
           | Panicked p \<Rightarrow> (addInFlight (- 1) s1, resp, res)))"

definition LogHandler :: "Server \<Rightarrow> LogObject Request \<Rightarrow> real \<Rightarrow> Time \<Rightarrow> handled" where
  "LogHandler s0 r dur now =
     inFlight (\<lambda>s.
       if Method r \<noteq> ''POST''
       then (recordHTTPMetrics s (Method r) ''/api/v1/logs'' 405 dur,
             Some (respondError ''Method not allowed'' 405), Returned ())
       else
         (case Body r of
            Inl e \<Rightarrow>
              (recordHTTPMetrics s (Method r) ''/api/v1/logs'' 400 dur,
               Some (respondError ''Failed to read request body'' 400), Returned ())
          | Inr body \<Rightarrow>
              (case ParseLogEntry now body of
                 (entry, Some err) \<Rightarrow>
                   (case entry of
                      None \<Rightarrow>
                        (recordHTTPMetrics s (Method r) ''/api/v1/logs'' 400 dur,
                         Some (respondError (''Failed to parse log entry: '' @ err) 400),
                         Panicked NilPointerDereference)
                    | Some e \<Rightarrow>
                        (IncLogsErrors (recordHTTPMetrics s (Method r) ''/api/v1/logs'' 400 dur)
                           (ServiceName e, ''parse_error''),
                         Some (respondError (''Failed to parse log entry: '' @ err) 400),
                         Returned ()))
               | (entry, None) \<Rightarrow>
                   (case entry of
                      None \<Rightarrow> (s, None, Panicked NilPointerDereference)
                    | Some e \<Rightarrow>
                        (let s1 = IncLogsReceived s (ServiceName e, Level e) in
                         case LogFromService (zapLogger s1) e of
                           (lg, Returned (Some err)) \<Rightarrow>
                             (IncLogsErrors
                                (recordHTTPMetrics (s1\<lparr>zapLogger := lg\<rparr>) (Method r)
                                   ''/api/v1/logs'' 500 dur)
                                (ServiceName e, ''processing_error''),
                              Some (respondError (''Failed to process log entry: '' @ err) 500),
                              Returned ())
                         | (lg, Returned None) \<Rightarrow>
                             (recordHTTPMetrics
                                (IncLogsProcessed (s1\<lparr>zapLogger := lg\<rparr>) (ServiceName e, Level e))
                                (Method r) ''/api/v1/logs'' 200 dur,
                              Some (respondSuccess
                                [(''status'', JString ''success''),
                                 (''message'', JString ''Log entry processed successfully'')]),
                              Returned ())
                         | (lg, Panicked p) \<Rightarrow> (s1\<lparr>zapLogger := lg\<rparr>, None, Panicked p)
                         | (lg, Exited c) \<Rightarrow> (s1\<lparr>zapLogger := lg\<rparr>, None, Exited c)))))) s0"

text \<open>The loop of \<^verbatim>\<open>LogBatchHandler\<close> that counts every entry as received and processed.\<close>

fun countEntries :: "Server \<Rightarrow> LogEntry list \<Rightarrow> Server" where
  "countEntries s [] = s"
| "countEntries s (entry # entries) =
     countEntries
       (IncLogsProcessed (IncLogsReceived s (ServiceName entry, Level entry))
          (ServiceName entry, Level entry))
       entries"

definition LogBatchHandler :: "Server \<Rightarrow> LogObject list Request \<Rightarrow> real \<Rightarrow> handled" where
  "LogBatchHandler s0 r dur =
     inFlight (\<lambda>s.
       if Method r \<noteq> ''POST''
       then (recordHTTPMetrics s (Method r) ''/api/v1/logs/batch'' 405 dur,
             Some (respondError ''Method not allowed'' 405), Returned ())
       else
         (case Decode (Body r) of
            Inl err \<Rightarrow>
              (recordHTTPMetrics s (Method r) ''/api/v1/logs/batch'' 400 dur,
               Some (respondError (''Failed to parse log entries: '' @ err) 400), Returned ())
          | Inr objs \<Rightarrow>
              (let entries = map Unmarshal objs;
                   s1 = s\<lparr>metrics := (metrics s)
                          \<lparr>LogBatchSize := LogBatchSize (metrics s) @ [real (length entries)]\<rparr>\<rparr>
               in
               case LogBatch (zapLogger s1) entries of
                 (lg, Returned (Some err)) \<Rightarrow>
                   (recordHTTPMetrics (s1\<lparr>zapLogger := lg\<rparr>) (Method r)
                      ''/api/v1/logs/batch'' 500 dur,
                    Some (respondError (''Failed to process log batch: '' @ err) 500),
                    Returned ())
               | (lg, Returned None) \<Rightarrow>
                   (recordHTTPMetrics (countEntries (s1\<lparr>zapLogger := lg\<rparr>) entries) (Method r)
                      ''/api/v1/logs/batch'' 200 dur,
                    Some (respondSuccess
                      [(''status'', JString ''success''),
                       (''message'', JString ''Log batch processed successfully''),
                       (''count'', JNumber (int (length entries)))]),
                    Returned ())
               | (lg, Panicked p) \<Rightarrow> (s1\<lparr>zapLogger := lg\<rparr>, None, Panicked p)
               | (lg, Exited c) \<Rightarrow> (s1\<lparr>zapLogger := lg\<rparr>, None, Exited c)))) s0"

text \<open>\<open>ks1\<close> and \<open>ks2\<close> are the orders of the two loops of the recorder this request reaches.\<close>

definition MetricsHandler ::
  "library \<Rightarrow> Server \<Rightarrow> MetricEntry Request \<Rightarrow> real \<Rightarrow> string list \<Rightarrow> string list \<Rightarrow> handled"
  where
  "MetricsHandler lib s0 r dur ks1 ks2 =
     inFlight (\<lambda>s.
       if Method r \<noteq> ''POST''
       then (recordHTTPMetrics s (Method r) ''/api/v1/metrics'' 405 dur,
             Some (respondError ''Method not allowed'' 405), Returned ())
       else
         (case Decode (Body r) of
            Inl err \<Rightarrow>
              (recordHTTPMetrics s (Method r) ''/api/v1/metrics'' 400 dur,
               Some (respondError (''Failed to parse metric entry: '' @ err) 400), Returned ())
          | Inr entry \<Rightarrow>
              (case RecordMetric lib (metrics s) entry ks1 ks2 of
                 (m1, Returned u) \<Rightarrow>
                   (recordHTTPMetrics (s\<lparr>metrics := m1\<rparr>) (Method r) ''/api/v1/metrics'' 200 dur,
                    Some (respondSuccess
                      [(''status'', JString ''success''),
                       (''message'', JString ''Metric recorded successfully'')]),
                    Returned ())
               | (m1, Panicked p) \<Rightarrow> (s\<lparr>metrics := m1\<rparr>, None, Panicked p)
               | (m1, Exited c) \<Rightarrow> (s\<lparr>metrics := m1\<rparr>, None, Exited c)))) s0"

section \<open>Reading the registry\<close>

text \<open>
  What an exposition of the registry shows for a custom counter: the child stored for a
  tuple of label values (\<open>counterValue\<close>, \<open>None\<close> while there is no such child), and the
  running sum of that tuple (\<open>counterSum\<close>, zero while there is no child).
\<close>

definition counterValue :: "Metrics \<Rightarrow> string \<Rightarrow> string list \<Rightarrow> real option" where
  "counterValue m name lvs =
     (case CustomCounters m name of None \<Rightarrow> None | Some vec \<Rightarrow> children vec lvs)"

definition counterSum :: "Metrics \<Rightarrow> string \<Rightarrow> string list \<Rightarrow> real" where
  "counterSum m name lvs =
     (case CustomCounters m name of None \<Rightarrow> 0 | Some vec \<Rightarrow> childValue (children vec) lvs)"

text \<open>The pair of label values under which a log entry is counted.\<close>

definition entryKey :: "LogEntry \<Rightarrow> string \<times> string" where
  "entryKey e = (ServiceName e, Level e)"

section \<open>Concrete requests\<close>

text \<open>A log object with a service name, a level and a message, every other member absent.\<close>

definition logObject :: "string \<Rightarrow> string \<Rightarrow> string \<Rightarrow> LogObject" where
  "logObject svc lv msg =
     \<lparr>m_service_name = Some svc, m_level = Some lv, m_message = Some msg, m_timestamp = None,
      m_fields = None, m_trace_id = None, m_span_id = None\<rparr>"

definition fatalRequest :: "LogObject Request" where
  "fatalRequest = \<lparr>Method = ''POST'', Body = Inr (WellFormed (logObject ''svc'' ''fatal'' ''boom''))\<rparr>"

definition malformedLogRequest :: "LogObject Request" where
  "malformedLogRequest = \<lparr>Method = ''POST'', Body = Inr (Malformed ''unexpected end of JSON input'')\<rparr>"

text \<open>A batch of two well-formed entries, the second of level \<^verbatim>\<open>fatal\<close>.\<close>

definition fatalBatchRequest :: "LogObject list Request" where
  "fatalBatchRequest =
     \<lparr>Method = ''POST'',
      Body = Inr (WellFormed [logObject ''svc'' ''info'' ''first'', logObject ''svc'' ''fatal'' ''boom''])\<rparr>"

definition summaryEntry :: MetricEntry where
  "summaryEntry =
     \<lparr>MetricServiceName = ''svc'', MetricName = ''x'', MetricType = ''summary'', Value = 1,
      Labels = None\<rparr>"

text \<open>The metric submission that the README of the service gives as its example.\<close>

definition readmeEntry :: MetricEntry where
  "readmeEntry =
     \<lparr>MetricServiceName = ''my-service'', MetricName = ''http_requests_total'',
      MetricType = ''counter'', Value = 1,
      Labels = Some [''method'' \<mapsto> ''GET'', ''path'' \<mapsto> ''/api/users'', ''status'' \<mapsto> ''200'']\<rparr>"

definition readmeRequest :: "MetricEntry Request" where
  "readmeRequest = \<lparr>Method = ''POST'', Body = Inr (WellFormed readmeEntry)\<rparr>"

text \<open>What a client sends for \<^verbatim>\<open>setGauge('active_users', 42, {region: 'eu'})\<close>.\<close>

definition gaugeEntry :: MetricEntry where
  "gaugeEntry =
     \<lparr>MetricServiceName = ''my-nodejs-service'', MetricName = ''active_users'',
      MetricType = ''gauge'', Value = 42, Labels = Some [''region'' \<mapsto> ''eu'']\<rparr>"



definition t2025 :: Time where
  "t2025 = \<lparr>seconds = 63898624800, nanoseconds = 0\<rparr>"

definition t2026 :: Time where
  "t2026 = \<lparr>seconds = 63902685296, nanoseconds = 250\<rparr>"

section \<open>The log normalizer\<close>

lemma ParseLogEntry_error_nil:
  "ParseLogEntry now data = (entry, Some err) \<Longrightarrow> entry = None"
  by (auto simp: ParseLogEntry_def Let_def split: jsonBytes.splits)

text \<open>
  Claim C8. Whenever \<^verbatim>\<open>ParseLogEntry\<close> succeeds, the bytes were a well-formed log object,
  and the timestamp of the entry it returns is the instant \<^verbatim>\<open>time.Now()\<close> gave in this
  call if the object has no timestamp member or the member is the zero instant; a
  timestamp that is supplied and not zero is kept as it is.
\<close>

theorem parse_defaults_timestamp:
  assumes "ParseLogEntry now data = (Some entry, None)"
  shows "\<exists>obj. data = WellFormed obj \<and>
           ((m_timestamp obj = None \<or> (\<exists>t. m_timestamp obj = Some t \<and> IsZero t))
              \<longrightarrow> Timestamp entry = now) \<and>
           (\<forall>t. m_timestamp obj = Some t \<and> \<not> IsZero t \<longrightarrow> Timestamp entry = t)"
  using assms
  by (auto simp: ParseLogEntry_def Let_def Unmarshal_def orZero_def IsZero_def zeroTime_def
      split: jsonBytes.splits if_splits option.splits)

text \<open>
  The theorem at three submissions parsed at \<open>t2026\<close>: one without a timestamp, one with
  the zero instant and one stamped \<open>t2025\<close>.
\<close>

theorem parse_defaults_timestamp_witness:
  "Timestamp (Unmarshal (logObject ''svc'' ''info'' ''hello'')\<lparr>Timestamp := t2026\<rparr>) = t2026 \<and>
   ParseLogEntry t2026 (WellFormed (logObject ''svc'' ''info'' ''hello'')) =
     (Some (Unmarshal (logObject ''svc'' ''info'' ''hello'')\<lparr>Timestamp := t2026\<rparr>), None) \<and>
   ParseLogEntry t2026 (WellFormed ((logObject ''svc'' ''info'' ''hello'')\<lparr>m_timestamp := Some zeroTime\<rparr>)) =
     (Some (Unmarshal (logObject ''svc'' ''info'' ''hello'')\<lparr>Timestamp := t2026\<rparr>), None) \<and>
   ParseLogEntry t2026 (WellFormed ((logObject ''svc'' ''info'' ''hello'')\<lparr>m_timestamp := Some t2025\<rparr>)) =
     (Some (Unmarshal (logObject ''svc'' ''info'' ''hello'')\<lparr>Timestamp := t2025\<rparr>), None)"
proof -
  let ?o = "logObject ''svc'' ''info'' ''hello''"
  let ?e = "Unmarshal ?o"
  have a: "ParseLogEntry t2026 (WellFormed ?o) = (Some (?e\<lparr>Timestamp := t2026\<rparr>), None)"
    by (simp add: ParseLogEntry_def Unmarshal_def logObject_def orZero_def IsZero_def zeroTime_def)
  have b: "ParseLogEntry t2026 (WellFormed (?o\<lparr>m_timestamp := Some zeroTime\<rparr>)) =
             (Some (?e\<lparr>Timestamp := t2026\<rparr>), None)"
    by (simp add: ParseLogEntry_def Unmarshal_def logObject_def orZero_def IsZero_def zeroTime_def)
  have c: "ParseLogEntry t2026 (WellFormed (?o\<lparr>m_timestamp := Some t2025\<rparr>)) =
             (Some (?e\<lparr>Timestamp := t2025\<rparr>), None)"
    by (simp add: ParseLogEntry_def Unmarshal_def logObject_def orZero_def IsZero_def t2025_def)
  have "Timestamp (?e\<lparr>Timestamp := t2026\<rparr>) = t2026"
    using parse_defaults_timestamp [OF a] by (simp add: logObject_def)
  with a b c show ?thesis by simp
qed

section \<open>The single-log handler\<close>

text \<open>
  Claim C10. For every POST whose body does not parse, \<^verbatim>\<open>ParseLogEntry\<close> hands back a
  \<^verbatim>\<open>nil\<close> entry with the error, and \<^verbatim>\<open>LogHandler\<close>, having written the 400 response and
  recorded the request, panics on \<^verbatim>\<open>entry.ServiceName\<close> with a nil pointer dereference;
  the error counter it was about to increment is left as it was.
\<close>

theorem parse_failure_dereferences_nil:
  assumes "Method r = ''POST''" and "Body r = Inr data"
    and "ParseLogEntry now data = (entry, Some err)"
  shows "entry = None \<and>
         LogHandler s r dur now =
           (addInFlight (- 1)
              (recordHTTPMetrics (addInFlight 1 s) ''POST'' ''/api/v1/logs'' 400 dur),
            Some (respondError (''Failed to parse log entry: '' @ err) 400),
            Panicked NilPointerDereference) \<and>
         LogsErrors (metrics (fst (LogHandler s r dur now))) = LogsErrors (metrics s)"
proof -
  have e: "entry = None"
    using ParseLogEntry_error_nil [OF assms(3)] .
  have run: "LogHandler s r dur now =
           (addInFlight (- 1)
              (recordHTTPMetrics (addInFlight 1 s) ''POST'' ''/api/v1/logs'' 400 dur),
            Some (respondError (''Failed to parse log entry: '' @ err) 400),
            Panicked NilPointerDereference)"
    using assms e by (simp add: LogHandler_def inFlight_def)
  have "LogsErrors (metrics (fst (LogHandler s r dur now))) = LogsErrors (metrics s)"
    by (simp add: run addInFlight_def recordHTTPMetrics_def)
  with e run show ?thesis by simp
qed

text \<open>The theorem at a truncated body sent to a fresh server.\<close>

theorem parse_failure_dereferences_nil_witness:
  "Method malformedLogRequest = ''POST'' \<and>
   Body malformedLogRequest = Inr (Malformed ''unexpected end of JSON input'') \<and>
   ParseLogEntry t2026 (Malformed ''unexpected end of JSON input'') =
     (None, Some ''failed to parse log entry: unexpected end of JSON input'') \<and>
   snd (snd (LogHandler InitServer malformedLogRequest 0 t2026)) = Panicked NilPointerDereference \<and>
   LogsErrors (metrics (fst (LogHandler InitServer malformedLogRequest 0 t2026))) = Map.empty"
proof -
  have m: "Method malformedLogRequest = ''POST''"
    by (simp add: malformedLogRequest_def)
  have b: "Body malformedLogRequest = Inr (Malformed ''unexpected end of JSON input'')"
    by (simp add: malformedLogRequest_def)
  have p: "ParseLogEntry t2026 (Malformed ''unexpected end of JSON input'') =
             (None, Some ''failed to parse log entry: unexpected end of JSON input'')"
    by (simp add: ParseLogEntry_def)
  have i: "LogsErrors (metrics InitServer) = Map.empty"
    by (simp add: InitServer_def InitMetrics_def)
  note t = parse_failure_dereferences_nil [OF m b p, of InitServer 0]
  have o: "snd (snd (LogHandler InitServer malformedLogRequest 0 t2026)) = Panicked NilPointerDereference"
    using t [THEN conjunct2, THEN conjunct1] by simp
  have l: "LogsErrors (metrics (fst (LogHandler InitServer malformedLogRequest 0 t2026))) = Map.empty"
    using t [THEN conjunct2, THEN conjunct2] i by (simp only:)
  from m b p o l show ?thesis by (simp only: simp_thms)
qed

text \<open>
  Claim C3. A well-formed single-log submission with the level \<^verbatim>\<open>fatal\<close>, sent to a fresh
  server: the entry is counted as received and written to the sink at the fatal level,
  and then the process exits with status 1. No response is written and the entry is
  never counted as processed.
\<close>

theorem fatal_entry_exits_process:
  "snd (LogHandler InitServer fatalRequest 0 t2026) = (None, Exited 1) \<and>
   map entryLevel (written (zapLogger (fst (LogHandler InitServer fatalRequest 0 t2026)))) = [FatalLevel] \<and>
   LogsReceived (metrics (fst (LogHandler InitServer fatalRequest 0 t2026))) (''svc'', ''fatal'') = Some 1 \<and>
   LogsProcessed (metrics (fst (LogHandler InitServer fatalRequest 0 t2026))) (''svc'', ''fatal'') = None"
  by (simp add: LogHandler_def inFlight_def fatalRequest_def logObject_def ParseLogEntry_def
      Unmarshal_def orZero_def IsZero_def zeroTime_def LogFromService_def zapWrite_def
      InitServer_def InitLogger_def getLogLevel_def InitMetrics_def addInFlight_def
      IncLogsReceived_def Inc_def childValue_def)

section \<open>The metric handler\<close>

text \<open>
  Claim C7, as the code has it. For every POST that decodes to a metric entry whose type
  is none of \<^verbatim>\<open>counter\<close>, \<^verbatim>\<open>gauge\<close>, \<^verbatim>\<open>histogram\<close>, \<^verbatim>\<open>RecordMetric\<close> returns without touching
  the registry and the handler answers 200 with the status \<^verbatim>\<open>success\<close>; the only trace of
  the request is in the HTTP metrics of the gateway.
\<close>

theorem unknown_metric_type_reports_success:
  assumes "Method r = ''POST''" and "Body r = Inr (WellFormed entry)"
    and "MetricType entry \<notin> {''counter'', ''gauge'', ''histogram''}"
  shows "RecordMetric lib (metrics s) entry ks1 ks2 = (metrics s, Returned ()) \<and>
         MetricsHandler lib s r dur ks1 ks2 =
           (addInFlight (- 1)
              (recordHTTPMetrics (addInFlight 1 s) ''POST'' ''/api/v1/metrics'' 200 dur),
            Some (respondSuccess
              [(''status'', JString ''success''),
               (''message'', JString ''Metric recorded successfully'')]),
            Returned ())"
proof -
  have rm: "\<And>m. RecordMetric lib m entry ks1 ks2 = (m, Returned ())"
    using assms(3) by (simp add: RecordMetric_def)
  have "metrics (addInFlight 1 s)\<lparr>HTTPRequestsInFlight := HTTPRequestsInFlight (metrics (addInFlight 1 s))\<rparr>
          = metrics (addInFlight 1 s)"
    by simp
  then show ?thesis
    using assms(1,2) rm by (simp add: MetricsHandler_def inFlight_def Decode_def)
qed

text \<open>The theorem at a submission of type \<^verbatim>\<open>summary\<close>.\<close>

theorem unknown_metric_type_reports_success_witness:
  "MetricType summaryEntry \<notin> {''counter'', ''gauge'', ''histogram''} \<and>
   RecordMetric plainLibrary InitMetrics summaryEntry [''service_name''] [] =
     (InitMetrics, Returned ())"
proof -
  have t: "MetricType summaryEntry \<notin> {''counter'', ''gauge'', ''histogram''}"
    by (simp add: summaryEntry_def)
  have "metrics InitServer = InitMetrics"
    by (simp add: InitServer_def)
  then show ?thesis
    using unknown_metric_type_reports_success
      [of "\<lparr>Method = ''POST'', Body = Inr (WellFormed summaryEntry)\<rparr>" summaryEntry
          plainLibrary InitServer "[''service_name'']" "[]" 0] t
    by simp
qed

text \<open>
  Against claim C7 as stated: the submission of type \<^verbatim>\<open>summary\<close> is answered with status
  200 and \<^verbatim>\<open>"status": "success"\<close>, not with a 400 error.
\<close>

theorem unknown_metric_type_counterexample:
  "map_option statusCode (fst (snd (MetricsHandler plainLibrary InitServer
      \<lparr>Method = ''POST'', Body = Inr (WellFormed summaryEntry)\<rparr> 0 [''service_name''] []))) = Some 200 \<and>
   map_option (\<lambda>resp. map_of (payload resp) ''status'') (fst (snd (MetricsHandler plainLibrary InitServer
      \<lparr>Method = ''POST'', Body = Inr (WellFormed summaryEntry)\<rparr> 0 [''service_name''] []))) =
     Some (Some (JString ''success'')) \<and>
   snd (snd (MetricsHandler plainLibrary InitServer
      \<lparr>Method = ''POST'', Body = Inr (WellFormed summaryEntry)\<rparr> 0 [''service_name''] [])) = Returned ()"
  by (simp add: MetricsHandler_def inFlight_def Decode_def RecordMetric_def summaryEntry_def
      respondSuccess_def)

section \<open>The metric registry\<close>

subsection \<open>The first submission of a name\<close>

lemma rangeOrder_length: "rangeOrder ks m \<Longrightarrow> length ks = card (dom m)"
  by (metis rangeOrder_def distinct_card)

lemma service_name_folded:
  "foldServiceName entry ''service_name'' = Some (MetricServiceName entry)"
  by (simp add: foldServiceName_def)

lemma folded_names_not_distinct:
  "rangeOrder ks1 (foldServiceName entry) \<Longrightarrow> \<not> distinct (buildLabelNames ks1)"
  using service_name_folded [of entry]
  by (auto simp: rangeOrder_def buildLabelNames_def)

lemma count_list_distinct_mem: "distinct xs \<Longrightarrow> x \<in> set xs \<Longrightarrow> count_list xs x = 1"
  by (induction xs) (auto simp: count_list_0_iff)

lemma folded_names_refused:
  "rangeOrder ks1 (foldServiceName entry) \<Longrightarrow>
   MustRegister lib r fqName (buildLabelNames ks1) = None"
  using folded_names_not_distinct [of ks1 entry] by (simp add: MustRegister_def)

lemma RecordMetric_unseen_family:
  assumes "rangeOrder ks1 (foldServiceName entry)"
    and "MetricType entry = ''counter'' \<and> CustomCounters m (MetricName entry) = None \<or>
         MetricType entry = ''gauge'' \<and> CustomGauges m (MetricName entry) = None \<or>
         MetricType entry = ''histogram'' \<and> CustomHistograms m (MetricName entry) = None"
  shows "RecordMetric lib m entry ks1 ks2 = (m, Panicked RegistrationFailed)"
  using assms(2) folded_names_refused [OF assms(1)]
  by (auto simp: RecordMetric_def RecordCustomCounter_def RecordCustomGauge_def
      RecordCustomHistogram_def)

text \<open>
  As long as the registry holds no custom family, \<^verbatim>\<open>RecordMetric\<close> leaves it as it is:
  a family is never created on this path.
\<close>

lemma RecordMetric_on_empty_registry:
  assumes "rangeOrder ks1 (foldServiceName entry)"
    and "CustomCounters m = Map.empty" and "CustomGauges m = Map.empty"
    and "CustomHistograms m = Map.empty"
  shows "fst (RecordMetric lib m entry ks1 ks2) = m"
proof (cases "MetricType entry \<in> {''counter'', ''gauge'', ''histogram''}")
  case True
  then show ?thesis
    using RecordMetric_unseen_family [OF assms(1), of m lib ks2] assms(2-4) by auto
next
  case False
  then show ?thesis
    by (simp add: RecordMetric_def)
qed

lemma addInFlight_cancel: "addInFlight (- 1) (addInFlight 1 s) = s"
  by (simp add: addInFlight_def)

lemma MetricsHandler_unseen_family:
  assumes "Method r = ''POST''" and "Body r = Inr (WellFormed entry)"
    and "rangeOrder ks1 (foldServiceName entry)"
    and "MetricType entry = ''counter'' \<and> CustomCounters (metrics s) (MetricName entry) = None \<or>
         MetricType entry = ''gauge'' \<and> CustomGauges (metrics s) (MetricName entry) = None \<or>
         MetricType entry = ''histogram'' \<and> CustomHistograms (metrics s) (MetricName entry) = None"
  shows "MetricsHandler lib s r dur ks1 ks2 = (s, None, Panicked RegistrationFailed)"
proof -
  have "RecordMetric lib (metrics (addInFlight 1 s)) entry ks1 ks2 =
          (metrics (addInFlight 1 s), Panicked RegistrationFailed)"
    using assms(4) by (intro RecordMetric_unseen_family [OF assms(3)]) (simp add: addInFlight_def)
  then show ?thesis
    using assms(1,2) by (simp add: MetricsHandler_def inFlight_def Decode_def addInFlight_cancel)
qed

text \<open>
  Claim C9, as the code has it. For every counter, gauge or histogram submission that
  goes through \<^verbatim>\<open>RecordMetric\<close> under a name that has no family yet, and every order in
  which the loop may visit the labels: the service name has been put into the labels
  before the recorder runs, so the label names built for the creation of the family
  contain \<^verbatim>\<open>service_name\<close> exactly twice and are one more than the submission has labels
  (the service name counted). The library refuses to register such names, and the
  recorder panics in the constructor, before it assembles any label value: no value
  list is supplied, no family is stored, the registry is as it was.
\<close>

theorem folded_service_name_fails_registration:
  assumes "rangeOrder ks1 (foldServiceName entry)"
    and "MetricType entry = ''counter'' \<and> CustomCounters m (MetricName entry) = None \<or>
         MetricType entry = ''gauge'' \<and> CustomGauges m (MetricName entry) = None \<or>
         MetricType entry = ''histogram'' \<and> CustomHistograms m (MetricName entry) = None"
  shows "count_list (buildLabelNames ks1) ''service_name'' = 2 \<and>
         length (buildLabelNames ks1) = Suc (card (dom (foldServiceName entry))) \<and>
         MustRegister lib (reg m) (''custom_'' @ MetricName entry) (buildLabelNames ks1) = None \<and>
         RecordMetric lib m entry ks1 ks2 = (m, Panicked RegistrationFailed)"
proof -
  have mem: "''service_name'' \<in> set ks1"
    using assms(1) service_name_folded [of entry] by (auto simp: rangeOrder_def)
  have d1: "distinct ks1"
    using assms(1) by (simp add: rangeOrder_def)
  have c: "count_list (buildLabelNames ks1) ''service_name'' = 2"
    using count_list_distinct_mem [OF d1 mem] by (simp add: buildLabelNames_def)
  have l: "length (buildLabelNames ks1) = Suc (card (dom (foldServiceName entry)))"
    using rangeOrder_length [OF assms(1)] by (simp add: buildLabelNames_def)
  from c l folded_names_refused [OF assms(1)] RecordMetric_unseen_family [OF assms]
  show ?thesis by simp
qed

text \<open>
  The theorem at the example of the README on a fresh registry: the labels \<^verbatim>\<open>method\<close>,
  \<^verbatim>\<open>path\<close> and \<^verbatim>\<open>status\<close> from the service \<^verbatim>\<open>my-service\<close>.
\<close>

theorem folded_service_name_fails_registration_witness:
  "rangeOrder [''path'', ''service_name'', ''status'', ''method''] (foldServiceName readmeEntry) \<and>
   MetricType readmeEntry = ''counter'' \<and>
   CustomCounters InitMetrics (MetricName readmeEntry) = None \<and>
   buildLabelNames [''path'', ''service_name'', ''status'', ''method''] =
     [''service_name'', ''path'', ''service_name'', ''status'', ''method''] \<and>
   count_list (buildLabelNames [''path'', ''service_name'', ''status'', ''method'']) ''service_name'' = 2 \<and>
   RecordMetric plainLibrary InitMetrics readmeEntry
     [''path'', ''service_name'', ''status'', ''method''] [''status'', ''method'', ''path''] =
     (InitMetrics, Panicked RegistrationFailed)"
proof -
  have r1: "rangeOrder [''path'', ''service_name'', ''status'', ''method''] (foldServiceName readmeEntry)"
    by (auto simp: rangeOrder_def foldServiceName_def readmeEntry_def split: if_splits)
  have k: "MetricType readmeEntry = ''counter''"
    by (simp add: readmeEntry_def)
  have u: "CustomCounters InitMetrics (MetricName readmeEntry) = None"
    by (simp add: InitMetrics_def)
  have n: "buildLabelNames [''path'', ''service_name'', ''status'', ''method''] =
     [''service_name'', ''path'', ''service_name'', ''status'', ''method'']"
    by (simp add: buildLabelNames_def)
  have h: "MetricType readmeEntry = ''counter'' \<and> CustomCounters InitMetrics (MetricName readmeEntry) = None \<or>
         MetricType readmeEntry = ''gauge'' \<and> CustomGauges InitMetrics (MetricName readmeEntry) = None \<or>
         MetricType readmeEntry = ''histogram'' \<and> CustomHistograms InitMetrics (MetricName readmeEntry) = None"
    using k u by simp
  note t = folded_service_name_fails_registration [OF r1 h, of plainLibrary "[''status'', ''method'', ''path'']"]
  from r1 k u n t [THEN conjunct1] t [THEN conjunct2, THEN conjunct2, THEN conjunct2]
  show ?thesis by (simp only: simp_thms)
qed

text \<open>
  Against claim C9 as stated. The claim has the recorder assemble a list of label values
  on each recording call and supply it to a family whose names it cannot match. A gauge
  with one label, sent to a fresh registry, does not get that far, whichever order the
  loop takes: the call ends in the constructor (\<open>RegistrationFailed\<close>), not in
  \<^verbatim>\<open>WithLabelValues\<close> (\<open>InconsistentCardinality\<close>), and no family is there afterwards to
  compare a value list with.
\<close>

theorem value_list_never_assembled_counterexample:
  "rangeOrder [''region'', ''service_name''] (foldServiceName gaugeEntry) \<and>
   rangeOrder [''service_name'', ''region''] (foldServiceName gaugeEntry) \<and>
   rangeOrder [''region''] (mapDelete (foldServiceName gaugeEntry) ''service_name'') \<and>
   RecordMetric plainLibrary InitMetrics gaugeEntry [''region'', ''service_name''] [''region''] =
     (InitMetrics, Panicked RegistrationFailed) \<and>
   RecordMetric plainLibrary InitMetrics gaugeEntry [''service_name'', ''region''] [''region''] =
     (InitMetrics, Panicked RegistrationFailed) \<and>
   snd (RecordMetric plainLibrary InitMetrics gaugeEntry [''region'', ''service_name''] [''region'']) \<noteq>
     Panicked InconsistentCardinality \<and>
   CustomGauges InitMetrics ''active_users'' = None"
proof -
  have r1: "rangeOrder [''region'', ''service_name''] (foldServiceName gaugeEntry)"
    by (auto simp: rangeOrder_def foldServiceName_def gaugeEntry_def split: if_splits)
  have r1': "rangeOrder [''service_name'', ''region''] (foldServiceName gaugeEntry)"
    by (auto simp: rangeOrder_def foldServiceName_def gaugeEntry_def split: if_splits)
  have r2: "rangeOrder [''region''] (mapDelete (foldServiceName gaugeEntry) ''service_name'')"
    by (auto simp: rangeOrder_def foldServiceName_def gaugeEntry_def mapDelete_def split: if_splits)
  have run: "RecordMetric plainLibrary InitMetrics gaugeEntry [''region'', ''service_name''] [''region''] =
     (InitMetrics, Panicked RegistrationFailed)"
    by (simp add: RecordMetric_def gaugeEntry_def RecordCustomGauge_def InitMetrics_def
        MustRegister_def buildLabelNames_def)
  have run': "RecordMetric plainLibrary InitMetrics gaugeEntry [''service_name'', ''region''] [''region''] =
     (InitMetrics, Panicked RegistrationFailed)"
    by (simp add: RecordMetric_def gaugeEntry_def RecordCustomGauge_def InitMetrics_def
        MustRegister_def buildLabelNames_def)
  have e: "CustomGauges InitMetrics ''active_users'' = None"
    by (simp add: InitMetrics_def)
  show ?thesis
    using r1 r1' r2 e by (simp add: run run')
qed

text \<open>
  Claim C2. The example of the README, sent as the first metric to a freshly started
  server, with the loops visiting the labels in one of the orders they may take: the
  handler writes no response and the request ends in the panic of the constructor. The
  server is exactly as it was before: no family \<^verbatim>\<open>http_requests_total\<close>, no label names
  captured (sorted or not), no child.
\<close>

theorem first_submission_is_dropped:
  "rangeOrder [''path'', ''service_name'', ''status'', ''method''] (foldServiceName readmeEntry) \<and>
   rangeOrder [''status'', ''method'', ''path'']
     (mapDelete (foldServiceName readmeEntry) ''service_name'') \<and>
   MetricsHandler plainLibrary InitServer readmeRequest 0
     [''path'', ''service_name'', ''status'', ''method''] [''status'', ''method'', ''path''] =
     (InitServer, None, Panicked RegistrationFailed) \<and>
   CustomCounters (metrics InitServer) ''http_requests_total'' = None \<and>
   ''custom_http_requests_total'' \<notin> reg (metrics InitServer)"
proof -
  have r1: "rangeOrder [''path'', ''service_name'', ''status'', ''method''] (foldServiceName readmeEntry)"
    by (auto simp: rangeOrder_def foldServiceName_def readmeEntry_def split: if_splits)
  have r2: "rangeOrder [''status'', ''method'', ''path'']
     (mapDelete (foldServiceName readmeEntry) ''service_name'')"
    by (auto simp: rangeOrder_def foldServiceName_def readmeEntry_def mapDelete_def split: if_splits)
  have i: "CustomCounters (metrics InitServer) ''http_requests_total'' = None \<and>
           ''custom_http_requests_total'' \<notin> reg (metrics InitServer)"
    by (simp add: InitServer_def InitMetrics_def)
  have "RecordMetric plainLibrary (metrics (addInFlight 1 InitServer)) readmeEntry
     [''path'', ''service_name'', ''status'', ''method''] [''status'', ''method'', ''path''] =
     (metrics (addInFlight 1 InitServer), Panicked RegistrationFailed)"
    by (simp add: RecordMetric_def readmeEntry_def RecordCustomCounter_def InitServer_def
        InitMetrics_def addInFlight_def MustRegister_def buildLabelNames_def)
  then have run: "MetricsHandler plainLibrary InitServer readmeRequest 0
     [''path'', ''service_name'', ''status'', ''method''] [''status'', ''method'', ''path''] =
     (InitServer, None, Panicked RegistrationFailed)"
    by (simp add: MetricsHandler_def inFlight_def Decode_def readmeRequest_def addInFlight_cancel)
  from r1 r2 run i show ?thesis by (simp only: simp_thms)
qed

subsection \<open>A family that exists\<close>

text \<open>
  A server starts without custom families, and each of the three handlers leaves a
  registry without custom families as it is, whatever the request: no state that the
  service reaches holds one.
\<close>

lemma countEntries_custom:
  "CustomCounters (metrics (countEntries s es)) = CustomCounters (metrics s) \<and>
   CustomGauges (metrics (countEntries s es)) = CustomGauges (metrics s) \<and>
   CustomHistograms (metrics (countEntries s es)) = CustomHistograms (metrics s)"
  by (induction es arbitrary: s) (simp_all add: IncLogsProcessed_def IncLogsReceived_def)

lemma LogHandler_keeps_custom_families:
  "CustomCounters (metrics (fst (LogHandler s r dur now))) = CustomCounters (metrics s) \<and>
   CustomGauges (metrics (fst (LogHandler s r dur now))) = CustomGauges (metrics s) \<and>
   CustomHistograms (metrics (fst (LogHandler s r dur now))) = CustomHistograms (metrics s)"
  by (simp add: LogHandler_def inFlight_def addInFlight_def recordHTTPMetrics_def
      IncLogsErrors_def IncLogsReceived_def IncLogsProcessed_def Let_def
      split: sum.splits prod.splits option.splits result.splits)

lemma LogBatchHandler_keeps_custom_families:
  "CustomCounters (metrics (fst (LogBatchHandler s r dur))) = CustomCounters (metrics s) \<and>
   CustomGauges (metrics (fst (LogBatchHandler s r dur))) = CustomGauges (metrics s) \<and>
   CustomHistograms (metrics (fst (LogBatchHandler s r dur))) = CustomHistograms (metrics s)"
  by (simp add: LogBatchHandler_def inFlight_def addInFlight_def recordHTTPMetrics_def
      countEntries_custom Let_def
      split: sum.splits prod.splits option.splits result.splits)

lemma MetricsHandler_keeps_registry_empty:
  assumes "\<And>entry. Body r = Inr (WellFormed entry) \<Longrightarrow> rangeOrder ks1 (foldServiceName entry)"
    and "CustomCounters (metrics s) = Map.empty" and "CustomGauges (metrics s) = Map.empty"
    and "CustomHistograms (metrics s) = Map.empty"
  shows "CustomCounters (metrics (fst (MetricsHandler lib s r dur ks1 ks2))) = Map.empty \<and>
         CustomGauges (metrics (fst (MetricsHandler lib s r dur ks1 ks2))) = Map.empty \<and>
         CustomHistograms (metrics (fst (MetricsHandler lib s r dur ks1 ks2))) = Map.empty"
proof (cases "Method r = ''POST''")
  case False
  then show ?thesis
    using assms(2-4)
    by (simp add: MetricsHandler_def inFlight_def addInFlight_def recordHTTPMetrics_def)
next
  case True
  show ?thesis
  proof (cases "Decode (Body r)")
    case (Inl err)
    then show ?thesis
      using True assms(2-4)
      by (simp add: MetricsHandler_def inFlight_def addInFlight_def recordHTTPMetrics_def)
  next
    case (Inr entry)
    then have b: "Body r = Inr (WellFormed entry)"
      by (auto simp: Decode_def split: sum.splits jsonBytes.splits)
    let ?m = "metrics (addInFlight 1 s)"
    have e: "CustomCounters ?m = Map.empty" "CustomGauges ?m = Map.empty"
      "CustomHistograms ?m = Map.empty"
      using assms(2-4) by (simp_all add: addInFlight_def)
    have f: "fst (RecordMetric lib ?m entry ks1 ks2) = ?m"
      by (rule RecordMetric_on_empty_registry [OF assms(1) [OF b] e])
    obtain m' res where rm: "RecordMetric lib ?m entry ks1 ks2 = (m', res)"
      by (cases "RecordMetric lib ?m entry ks1 ks2")
    with f have m': "m' = ?m" by simp
    show ?thesis
      using True Inr rm m' assms(2-4)
      by (cases res)
         (simp_all add: MetricsHandler_def inFlight_def addInFlight_def recordHTTPMetrics_def)
  qed
qed

text \<open>
  What follows therefore describes the recorder alone. On a counter family that exists
  it never looks at the label keys of a submission: only the number of label values
  counts. If it differs from the number of stored label names the call panics and
  leaves the registry as it was; if it agrees the call goes on to \<^verbatim>\<open>Add\<close>, which takes a
  value that is not negative and panics on one that is. Two submissions that assemble
  the same values have the same effect, whatever their keys.
\<close>

lemma existing_counter_family:
  assumes "CustomCounters m name = Some fam"
  shows "(length (buildLabelValues labels ks2) \<noteq> length (labelNames fam) \<longrightarrow>
            RecordCustomCounter lib m name labels value ks1 ks2 =
              (m, Panicked InconsistentCardinality)) \<and>
         (length (buildLabelValues labels ks2) = length (labelNames fam) \<and> 0 \<le> value \<longrightarrow>
            (\<exists>m'. RecordCustomCounter lib m name labels value ks1 ks2 = (m', Returned ()) \<and>
                  counterValue m' name (buildLabelValues labels ks2) =
                    Some (counterAdd lib (counterSum m name (buildLabelValues labels ks2)) value))) \<and>
         (length (buildLabelValues labels ks2) = length (labelNames fam) \<and> value < 0 \<longrightarrow>
            (\<exists>m'. RecordCustomCounter lib m name labels value ks1 ks2 =
                    (m', Panicked CounterCannotDecrease))) \<and>
         (\<forall>labels' ks1' ks2'. buildLabelValues labels' ks2' = buildLabelValues labels ks2 \<longrightarrow>
            RecordCustomCounter lib m name labels' value ks1' ks2' =
            RecordCustomCounter lib m name labels value ks1 ks2)"
  using assms
  by (auto simp: RecordCustomCounter_def WithLabelValues_def counterValue_def counterSum_def
      childValue_def Let_def split: option.splits)

subsection \<open>Negative counter values\<close>





lemma counterSum_addInFlight [simp]:
  "counterSum (metrics (addInFlight d s)) n lvs = counterSum (metrics s) n lvs"
  by (simp add: counterSum_def addInFlight_def)




section \<open>The batch handler\<close>

lemma childValue_Inc: "childValue (Inc cs k) k' = childValue cs k' + (if k = k' then 1 else 0)"
  by (simp add: Inc_def childValue_def)

lemma countEntries_processed:
  "childValue (LogsProcessed (metrics (countEntries s es))) k =
   childValue (LogsProcessed (metrics s)) k + real (count_list (map entryKey es) k)"
  by (induction es arbitrary: s)
     (auto simp: IncLogsProcessed_def IncLogsReceived_def childValue_Inc entryKey_def)

lemma countEntries_received:
  "childValue (LogsReceived (metrics (countEntries s es))) k =
   childValue (LogsReceived (metrics s)) k + real (count_list (map entryKey es) k)"
  by (induction es arbitrary: s)
     (auto simp: IncLogsProcessed_def IncLogsReceived_def childValue_Inc entryKey_def)

lemma LogFromService_returns:
  "Level e \<noteq> ''fatal'' \<Longrightarrow> Level e \<noteq> ''panic'' \<Longrightarrow>
   \<exists>lg'. LogFromService lg e = (lg', Returned None)"
  by (simp add: LogFromService_def Let_def)

lemma LogBatch_returns:
  "\<forall>e\<in>set es. Level e \<noteq> ''fatal'' \<and> Level e \<noteq> ''panic'' \<Longrightarrow>
   \<exists>lg'. LogBatch lg es = (lg', Returned None)"
proof (induction es arbitrary: lg)
  case Nil
  then show ?case by simp
next
  case (Cons e es)
  then obtain lg1 where "LogFromService lg e = (lg1, Returned None)"
    using LogFromService_returns [of e lg] by auto
  then show ?case using Cons by simp
qed

lemma Level_Unmarshal: "Level (Unmarshal obj) = orZero [] (m_level obj)"
  by (simp add: Unmarshal_def)

lemma total_count: "(\<Sum>k\<in>set xs. real (count_list xs k)) = real (length xs)"
proof -
  have "(\<Sum>k\<in>set xs. real (count_list xs k)) = real (\<Sum>k\<in>set xs. count_list xs k)"
    by simp
  also have "\<dots> = real (length xs)"
    by (simp add: sum_count_set)
  finally show ?thesis .
qed

text \<open>
  For every POST to the batch endpoint. If the body decodes to \<open>N\<close> log objects, none
  of them of level \<^verbatim>\<open>fatal\<close> or \<^verbatim>\<open>panic\<close>, the handler answers 200 with \<^verbatim>\<open>count\<close> = \<open>N\<close>,
  and the processed and the received counter of every pair of service name and level
  grow by the number of entries with that pair, \<open>N\<close> in total. If the body does not
  decode, the handler answers 400 with the decoder's message, and the log counters
  (received, processed, errors), the batch-size histogram, the custom metrics and the
  sink are as they were.
\<close>

lemma batch_without_terminal_levels:
  assumes "Method r = ''POST''"
  shows "(\<forall>objs. Body r = Inr (WellFormed objs) \<and>
             (\<forall>obj\<in>set objs. m_level obj \<noteq> Some ''fatal'' \<and> m_level obj \<noteq> Some ''panic'') \<longrightarrow>
           (\<exists>s'. LogBatchHandler s r dur =
                   (s', Some (respondSuccess
                      [(''status'', JString ''success''),
                       (''message'', JString ''Log batch processed successfully''),
                       (''count'', JNumber (int (length objs)))]), Returned ()) \<and>
                (\<forall>k. childValue (LogsProcessed (metrics s')) k =
                      childValue (LogsProcessed (metrics s)) k
                        + real (count_list (map entryKey (map Unmarshal objs)) k)) \<and>
                (\<forall>k. childValue (LogsReceived (metrics s')) k =
                      childValue (LogsReceived (metrics s)) k
                        + real (count_list (map entryKey (map Unmarshal objs)) k)) \<and>
                (\<Sum>k\<in>set (map entryKey (map Unmarshal objs)).
                    childValue (LogsProcessed (metrics s')) k - childValue (LogsProcessed (metrics s)) k)
                  = real (length objs))) \<and>
         (\<forall>err. Decode (Body r) = Inl err \<longrightarrow>
           (\<exists>s'. LogBatchHandler s r dur =
                   (s', Some (respondError (''Failed to parse log entries: '' @ err) 400), Returned ()) \<and>
                LogsReceived (metrics s') = LogsReceived (metrics s) \<and>
                LogsProcessed (metrics s') = LogsProcessed (metrics s) \<and>
                LogsErrors (metrics s') = LogsErrors (metrics s) \<and>
                LogBatchSize (metrics s') = LogBatchSize (metrics s) \<and>
                CustomCounters (metrics s') = CustomCounters (metrics s) \<and>
                CustomGauges (metrics s') = CustomGauges (metrics s) \<and>
                CustomHistograms (metrics s') = CustomHistograms (metrics s) \<and>
                zapLogger s' = zapLogger s))"
proof (intro conjI allI impI)
  fix objs
  assume h: "Body r = Inr (WellFormed objs) \<and>
             (\<forall>obj\<in>set objs. m_level obj \<noteq> Some ''fatal'' \<and> m_level obj \<noteq> Some ''panic'')"
  let ?es = "map Unmarshal objs"
  let ?s1 = "(addInFlight 1 s)\<lparr>metrics := (metrics (addInFlight 1 s))
                \<lparr>LogBatchSize := LogBatchSize (metrics (addInFlight 1 s)) @ [real (length ?es)]\<rparr>\<rparr>"
  have "\<forall>e\<in>set ?es. Level e \<noteq> ''fatal'' \<and> Level e \<noteq> ''panic''"
    using h by (auto simp: Level_Unmarshal orZero_def split: option.splits)
  then obtain lg where lg: "LogBatch (zapLogger ?s1) ?es = (lg, Returned None)"
    using LogBatch_returns by blast
  let ?s' = "addInFlight (- 1) (recordHTTPMetrics (countEntries (?s1\<lparr>zapLogger := lg\<rparr>) ?es)
               ''POST'' ''/api/v1/logs/batch'' 200 dur)"
  have run: "LogBatchHandler s r dur =
                   (?s', Some (respondSuccess
                      [(''status'', JString ''success''),
                       (''message'', JString ''Log batch processed successfully''),
                       (''count'', JNumber (int (length objs)))]), Returned ())"
    using assms h lg by (simp add: LogBatchHandler_def inFlight_def Decode_def Let_def)
  have p: "\<And>k. childValue (LogsProcessed (metrics ?s')) k =
                      childValue (LogsProcessed (metrics s)) k + real (count_list (map entryKey ?es) k)"
    by (simp add: addInFlight_def recordHTTPMetrics_def countEntries_processed)
  have q: "\<And>k. childValue (LogsReceived (metrics ?s')) k =
                      childValue (LogsReceived (metrics s)) k + real (count_list (map entryKey ?es) k)"
    by (simp add: addInFlight_def recordHTTPMetrics_def countEntries_received)
  have t: "(\<Sum>k\<in>set (map entryKey ?es).
              childValue (LogsProcessed (metrics ?s')) k - childValue (LogsProcessed (metrics s)) k)
            = real (length objs)"
  proof -
    have "(\<Sum>k\<in>set (map entryKey ?es).
              childValue (LogsProcessed (metrics ?s')) k - childValue (LogsProcessed (metrics s)) k)
          = (\<Sum>k\<in>set (map entryKey ?es). real (count_list (map entryKey ?es) k))"
      by (rule sum.cong) (simp_all only: p add_diff_cancel_left')
    then show ?thesis
      using total_count [of "map entryKey ?es"] by simp
  qed
  show "\<exists>s'. LogBatchHandler s r dur =
                   (s', Some (respondSuccess
                      [(''status'', JString ''success''),
                       (''message'', JString ''Log batch processed successfully''),
                       (''count'', JNumber (int (length objs)))]), Returned ()) \<and>
                (\<forall>k. childValue (LogsProcessed (metrics s')) k =
                      childValue (LogsProcessed (metrics s)) k
                        + real (count_list (map entryKey (map Unmarshal objs)) k)) \<and>
                (\<forall>k. childValue (LogsReceived (metrics s')) k =
                      childValue (LogsReceived (metrics s)) k
                        + real (count_list (map entryKey (map Unmarshal objs)) k)) \<and>
                (\<Sum>k\<in>set (map entryKey (map Unmarshal objs)).
                    childValue (LogsProcessed (metrics s')) k - childValue (LogsProcessed (metrics s)) k)
                  = real (length objs)"
    using run p q t by blast
next
  fix err
  assume "Decode (Body r) = Inl err"
  then show "\<exists>s'. LogBatchHandler s r dur =
                   (s', Some (respondError (''Failed to parse log entries: '' @ err) 400), Returned ()) \<and>
                LogsReceived (metrics s') = LogsReceived (metrics s) \<and>
                LogsProcessed (metrics s') = LogsProcessed (metrics s) \<and>
                LogsErrors (metrics s') = LogsErrors (metrics s) \<and>
                LogBatchSize (metrics s') = LogBatchSize (metrics s) \<and>
                CustomCounters (metrics s') = CustomCounters (metrics s) \<and>
                CustomGauges (metrics s') = CustomGauges (metrics s) \<and>
                CustomHistograms (metrics s') = CustomHistograms (metrics s) \<and>
                zapLogger s' = zapLogger s"
    using assms
    by (simp add: LogBatchHandler_def inFlight_def addInFlight_def recordHTTPMetrics_def)
qed

lemma LogBatch_fatal_first:
  "Level e = ''fatal'' \<Longrightarrow> snd (LogBatch lg (e # es)) = Exited 1"
  by (simp add: LogFromService_def Let_def)

text \<open>
  Claim C5. A batch of two well-formed entries, the second of level \<^verbatim>\<open>fatal\<close>, sent to a
  freshly started server: \<^verbatim>\<open>LogBatch\<close> writes the first entry, writes the second at the
  fatal level and the process exits with status 1. No response is written, so no
  \<^verbatim>\<open>count\<close>, and neither entry is counted as received or processed, although both are in
  the sink.
\<close>

theorem fatal_entry_ends_batch:
  "snd (LogBatchHandler InitServer fatalBatchRequest 0) = (None, Exited 1) \<and>
   LogsProcessed (metrics (fst (LogBatchHandler InitServer fatalBatchRequest 0))) = Map.empty \<and>
   LogsReceived (metrics (fst (LogBatchHandler InitServer fatalBatchRequest 0))) = Map.empty \<and>
   map entryLevel (written (zapLogger (fst (LogBatchHandler InitServer fatalBatchRequest 0)))) =
     [InfoLevel, FatalLevel]"
  by (simp add: LogBatchHandler_def inFlight_def fatalBatchRequest_def
      Decode_def logObject_def Unmarshal_def orZero_def LogFromService_def zapWrite_def
      InitServer_def InitLogger_def getLogLevel_def InitMetrics_def addInFlight_def)

section \<open>Further facts about the levels fatal and panic\<close>

text \<open>
  Whatever the state of the server, a well-formed single-log submission of level
  \<^verbatim>\<open>fatal\<close> ends the process, and one of level \<^verbatim>\<open>panic\<close> panics: the request is dropped
  without a response, and the server goes on.
\<close>

lemma fatal_level_always_exits:
  assumes "Method r = ''POST''" and "Body r = Inr (WellFormed obj)"
    and "m_level obj = Some ''fatal''"
  shows "snd (LogHandler s r dur now) = (None, Exited 1)"
  using assms
  by (simp add: LogHandler_def inFlight_def ParseLogEntry_def Let_def LogFromService_def
      Unmarshal_def orZero_def)

lemma panic_level_always_panics:
  assumes "Method r = ''POST''" and "Body r = Inr (WellFormed obj)"
    and "m_level obj = Some ''panic''"
  shows "snd (LogHandler s r dur now) = (None, Panicked (LoggerPanic (orZero [] (m_message obj))))"
  using assms
  by (simp add: LogHandler_def inFlight_def ParseLogEntry_def Let_def LogFromService_def
      Unmarshal_def orZero_def)

end
